theory Spec2Isabelle
  imports Complex_Main "HOL-Library.Monad_Syntax"
begin

section \<open>Yoga pose scoring and level progression (src/main.py)\<close>

text \<open>
  Conventions of the embedding.
  \<^item> Python numbers (\<open>int\<close> and \<open>float\<close>) that take part in the scoring arithmetic are
    real numbers; rounding of IEEE doubles is not modelled. Python's \<open>int(x)\<close> is
    \<open>py_int\<close> (truncation towards zero), embedded back into the reals where the
    program goes on computing with it.
  \<^item> A call that may raise returns an \<open>option\<close>: \<open>None\<close> is a raised exception (the
    comment at each such branch names it), \<open>Some v\<close> is a normal return of \<open>v\<close>.
  \<^item> The module globals \<open>width\<close> and \<open>height\<close> (set from the frame's shape before any
    scoring call) are the first two parameters of every function that reads them.
\<close>

subsection \<open>Constants\<close>

definition ACCURACY_THRESHOLD :: real where
  "ACCURACY_THRESHOLD = 55"

definition SENSITIVITY :: real where
  "SENSITIVITY = 108 / 100"

definition SMOOTHING_WINDOW :: nat where
  "SMOOTHING_WINDOW = 4"

text \<open>\<open>POSE_CONFIG\<close>: level \<open>\<mapsto>\<close> (name \<open>\<mapsto>\<close> weight); \<open>cfg_get\<close> is \<open>dict.get(key, default)\<close>.\<close>

definition POSE_CONFIG :: "int \<Rightarrow> (string \<rightharpoonup> real)" where
  "POSE_CONFIG level =
     (if level = 1 then map_of [(''feet_weight'', 50), (''shoulder_weight'', 20),
                                (''arm_weight'', 15), (''arm_tolerance'', 40)]
      else if level = 2 then map_of [(''leg_weight'', 40), (''balance_weight'', 30),
                                     (''standing_weight'', 30)]
      else if level = 3 then map_of [(''leg_bend_weight'', 40), (''arms_weight'', 30),
                                     (''stance_weight'', 30)]
      else if level = 4 then map_of [(''fold_weight'', 50), (''knee_weight'', 50)]
      else if level = 5 then map_of [(''upright_weight'', 50), (''spine_weight'', 30),
                                     (''legs_weight'', 20)]
      else Map.empty)"

definition cfg_get :: "(string \<rightharpoonup> real) \<Rightarrow> string \<Rightarrow> real \<Rightarrow> real" where
  "cfg_get cfg k d = (case cfg k of None \<Rightarrow> d | Some v \<Rightarrow> v)"

subsection \<open>Landmarks and results of the pose detector\<close>

record landmark =
  x :: real
  y :: real

text \<open>
  \<open>results.pose_landmarks\<close> is either \<open>None\<close> or a landmark-list message, whose
  \<open>landmark\<close> field is the list itself. A message object is truthy whatever its
  length, so only \<open>None\<close> counts as absent.
\<close>

record results =
  pose_landmarks :: "landmark list option"

type_synonym point = "real \<times> real"

subsection \<open>Geometry helpers\<close>

definition py_int :: "real \<Rightarrow> int" where
  "py_int r = (if 0 \<le> r then \<lfloor>r\<rfloor> else \<lceil>r\<rceil>)"

text \<open>
  \<open>xs[p]\<close> on a Python sequence: a negative index counts from the end, and an index
  outside \<open>-len .. len-1\<close> raises \<open>IndexError\<close>.
\<close>

definition py_getitem :: "'a list \<Rightarrow> int \<Rightarrow> 'a option" where
  "py_getitem xs p =
     (if 0 \<le> p \<and> p < int (length xs) then Some (xs ! nat p)
      else if p < 0 \<and> - int (length xs) \<le> p then Some (xs ! nat (int (length xs) + p))
      else None)"

definition find_point :: "nat \<Rightarrow> nat \<Rightarrow> landmark list \<Rightarrow> int \<Rightarrow> point option" where
  "find_point width height landmarks p =
     (if p < int (length landmarks) then
        do {
          lm \<leftarrow> py_getitem landmarks p;
          Some (real_of_int (py_int (x lm * real width)),
                real_of_int (py_int (y lm * real height)))
        }
      else Some (0, 0))"

definition euclidian :: "point \<Rightarrow> point \<Rightarrow> real" where
  "euclidian point1 point2 =
     sqrt ((fst point1 - fst point2)\<^sup>2 + (snd point1 - snd point2)\<^sup>2)"

text \<open>
  \<open>angle_calc\<close> wraps its body in \<open>try ... except: return 0\<close>. The body raises
  \<open>ZeroDivisionError\<close> when \<open>math.sqrt(4*a*b)\<close> is zero and \<open>ValueError\<close> when the
  argument of \<open>math.acos\<close> lies outside \<open>[-1, 1]\<close>; both are the \<open>0\<close> branches here.
\<close>

definition angle_calc :: "point \<Rightarrow> point \<Rightarrow> point \<Rightarrow> int" where
  "angle_calc p0 p1 p2 =
     (let a = (fst p1 - fst p0)\<^sup>2 + (snd p1 - snd p0)\<^sup>2;
          b = (fst p1 - fst p2)\<^sup>2 + (snd p1 - snd p2)\<^sup>2;
          c = (fst p2 - fst p0)\<^sup>2 + (snd p2 - snd p0)\<^sup>2;
          d = sqrt (4 * a * b)
      in if d = 0 then 0
         else let q = (a + b - c) / d
              in if q < - 1 \<or> 1 < q then 0
                 else py_int (arccos q * 180 / pi))"

subsection \<open>The pose scorer\<close>

text \<open>\<open>a / b\<close> on Python floats: \<open>None\<close> is \<open>ZeroDivisionError\<close>.\<close>

definition py_div :: "real \<Rightarrow> real \<Rightarrow> real option" where
  "py_div a b = (if b = 0 then None else Some (a / b))"

text \<open>Lines 110-118: the normalisation scale shared by all five formulas.\<close>

definition compute_torso_dist :: "nat \<Rightarrow> nat \<Rightarrow> landmark list \<Rightarrow> real option" where
  "compute_torso_dist width height landmarks =
     do {
       left_shoulder \<leftarrow> find_point width height landmarks 11;
       right_shoulder \<leftarrow> find_point width height landmarks 12;
       left_hip \<leftarrow> find_point width height landmarks 23;
       right_hip \<leftarrow> find_point width height landmarks 24;
       let mid_sh = ((fst left_shoulder + fst right_shoulder) / 2,
                     (snd left_shoulder + snd right_shoulder) / 2);
       let mid_hip = ((fst left_hip + fst right_hip) / 2,
                      (snd left_hip + snd right_hip) / 2);
       let torso_dist = euclidian mid_sh mid_hip;
       Some (if torso_dist < 1 then real (max height width) / 4 else torso_dist)
     }"

text \<open>
  Lines 123-150, level 1 (Mountain): the four entries of \<open>sub_scores\<close>, in the order
  \<open>feet_score\<close>, \<open>shoulder_score\<close>, \<open>left_arm_score\<close>, \<open>right_arm_score\<close>. In this
  branch \<open>pose_level\<close> is 1, so \<open>cfg = POSE_CONFIG.get(pose_level, {})\<close> is the entry
  of level 1; the other levels do not read \<open>cfg\<close>.
\<close>

definition mountain_scores ::
  "nat \<Rightarrow> nat \<Rightarrow> landmark list \<Rightarrow> real \<Rightarrow> (real \<times> real \<times> real \<times> real) option" where
  "mountain_scores width height landmarks torso_dist =
     do {
       left_shoulder \<leftarrow> find_point width height landmarks 11;
       right_shoulder \<leftarrow> find_point width height landmarks 12;
       left_ankle \<leftarrow> find_point width height landmarks 27;
       right_ankle \<leftarrow> find_point width height landmarks 28;
       left_wrist \<leftarrow> find_point width height landmarks 15;
       right_wrist \<leftarrow> find_point width height landmarks 16;
       let shoulder_gap = \<bar>fst left_shoulder - fst right_shoulder\<bar>;
       let ankle_gap = \<bar>fst left_ankle - fst right_ankle\<bar>;
       left_elbow \<leftarrow> find_point width height landmarks 13;
       let left_arm_angle = angle_calc left_wrist left_shoulder left_elbow;
       right_elbow \<leftarrow> find_point width height landmarks 14;
       let right_arm_angle = angle_calc right_wrist right_shoulder right_elbow;
       let cfg = POSE_CONFIG 1;
       let feet_w = cfg_get cfg ''feet_weight'' 50;
       let shoulder_w = cfg_get cfg ''shoulder_weight'' 20;
       let arm_w = cfg_get cfg ''arm_weight'' 15;
       let arm_tol = cfg_get cfg ''arm_tolerance'' 40;
       feet_q \<leftarrow> py_div ankle_gap (torso_dist * 0.6);
       let feet_score = max 0 (feet_w * (1 - feet_q));
       shoulder_q \<leftarrow> py_div shoulder_gap (torso_dist * 0.9);
       let shoulder_score = max 0 (shoulder_w * (1 - shoulder_q));
       left_q \<leftarrow> py_div \<bar>real_of_int left_arm_angle - 170\<bar> arm_tol;
       let left_arm_score = max 0 (arm_w * (1 - left_q));
       right_q \<leftarrow> py_div \<bar>real_of_int right_arm_angle - 170\<bar> arm_tol;
       let right_arm_score = max 0 (arm_w * (1 - right_q));
       Some (feet_score, shoulder_score, left_arm_score, right_arm_score)
     }"

definition mountain_accuracy :: "nat \<Rightarrow> nat \<Rightarrow> landmark list \<Rightarrow> real \<Rightarrow> real option" where
  "mountain_accuracy width height landmarks torso_dist =
     do {
       (feet_score, shoulder_score, left_arm_score, right_arm_score)
          \<leftarrow> mountain_scores width height landmarks torso_dist;
       let accuracy = feet_score + shoulder_score + left_arm_score + right_arm_score;
       Some (min 100 (max 0 accuracy))
     }"

text \<open>Lines 155-189, level 2 (Tree).\<close>

definition tree_accuracy :: "nat \<Rightarrow> nat \<Rightarrow> landmark list \<Rightarrow> real \<Rightarrow> real option" where
  "tree_accuracy width height landmarks torso_dist =
     do {
       left_hip \<leftarrow> find_point width height landmarks 23;
       right_hip \<leftarrow> find_point width height landmarks 24;
       left_ankle \<leftarrow> find_point width height landmarks 27;
       right_ankle \<leftarrow> find_point width height landmarks 28;
       left_knee \<leftarrow> find_point width height landmarks 25;
       right_knee \<leftarrow> find_point width height landmarks 26;
       let hip_ankle_l = euclidian left_hip left_ankle;
       let hip_ankle_r = euclidian right_hip right_ankle;
       let left_leg_raised = (snd left_ankle < snd left_hip - torso_dist * 0.35);
       let right_leg_raised = (snd right_ankle < snd right_hip - torso_dist * 0.35);
       let (leg_accuracy, balance_diff) =
             (if left_leg_raised then (40, hip_ankle_l)
              else if right_leg_raised then (40, hip_ankle_r)
              else (0, max hip_ankle_l hip_ankle_r));
       balance_q \<leftarrow> py_div \<bar>hip_ankle_l - hip_ankle_r\<bar> (torso_dist * 0.6);
       let balance_accuracy = max 0 (30 * (1 - balance_q));
       standing_q \<leftarrow> py_div \<bar>balance_diff - torso_dist * 0.75\<bar> (torso_dist * 0.75);
       let standing_accuracy = max 0 (30 * (1 - standing_q));
       let accuracy = leg_accuracy + balance_accuracy + standing_accuracy;
       Some (min 100 (max 0 accuracy))
     }"

text \<open>Lines 191-220, level 3 (Warrior).\<close>

definition warrior_accuracy :: "nat \<Rightarrow> nat \<Rightarrow> landmark list \<Rightarrow> real \<Rightarrow> real option" where
  "warrior_accuracy width height landmarks torso_dist =
     do {
       left_hip \<leftarrow> find_point width height landmarks 23;
       right_hip \<leftarrow> find_point width height landmarks 24;
       left_knee \<leftarrow> find_point width height landmarks 25;
       right_knee \<leftarrow> find_point width height landmarks 26;
       left_ankle \<leftarrow> find_point width height landmarks 27;
       right_ankle \<leftarrow> find_point width height landmarks 28;
       left_wrist \<leftarrow> find_point width height landmarks 15;
       right_wrist \<leftarrow> find_point width height landmarks 16;
       left_shoulder \<leftarrow> find_point width height landmarks 11;
       right_shoulder \<leftarrow> find_point width height landmarks 12;
       let left_leg_angle = angle_calc left_hip left_knee left_ankle;
       let right_leg_angle = angle_calc right_hip right_knee right_ankle;
       let left_arm_raised = (snd left_wrist < snd left_shoulder - torso_dist * 0.4);
       let right_arm_raised = (snd right_wrist < snd right_shoulder - torso_dist * 0.4);
       let leg_bend_accuracy =
             max 0 (40 * (1 - \<bar>real_of_int (min left_leg_angle right_leg_angle) - 90\<bar> / 90));
       let arms_accuracy = (if left_arm_raised \<or> right_arm_raised then 30 else 0);
       let stance_accuracy = (if \<bar>left_leg_angle - right_leg_angle\<bar> < 50 then 30 else 10);
       let accuracy = leg_bend_accuracy + arms_accuracy + stance_accuracy;
       Some (min 100 (max 0 accuracy))
     }"

text \<open>Lines 222-243, level 4 (Child).\<close>

definition child_accuracy :: "nat \<Rightarrow> nat \<Rightarrow> landmark list \<Rightarrow> real \<Rightarrow> real option" where
  "child_accuracy width height landmarks torso_dist =
     do {
       nose \<leftarrow> find_point width height landmarks 0;
       left_hip \<leftarrow> find_point width height landmarks 23;
       right_hip \<leftarrow> find_point width height landmarks 24;
       left_knee \<leftarrow> find_point width height landmarks 25;
       right_knee \<leftarrow> find_point width height landmarks 26;
       let hip_center_y = (snd left_hip + snd right_hip) / 2;
       let nose_below_hips = (snd nose > hip_center_y);
       let knees_bent = (snd left_knee > snd left_hip + torso_dist * 0.2
                         \<and> snd right_knee > snd right_hip + torso_dist * 0.2);
       fold_q \<leftarrow> py_div (max 0 (hip_center_y - snd nose)) (torso_dist * 0.6);
       let fold_accuracy = max 0 (50 * (1 - fold_q));
       knee_accuracy \<leftarrow>
         (if knees_bent then Some 50
          else do {
            knee_q \<leftarrow> py_div \<bar>snd left_knee - snd left_hip\<bar> (torso_dist * 0.6);
            Some (max 0 (50 * (1 - knee_q)))
          });
       let accuracy = fold_accuracy + knee_accuracy;
       Some (min 100 (max 0 accuracy))
     }"

text \<open>Lines 245-268, level 5 (Lotus).\<close>

definition lotus_accuracy :: "nat \<Rightarrow> nat \<Rightarrow> landmark list \<Rightarrow> real \<Rightarrow> real option" where
  "lotus_accuracy width height landmarks torso_dist =
     do {
       left_hip \<leftarrow> find_point width height landmarks 23;
       right_hip \<leftarrow> find_point width height landmarks 24;
       nose \<leftarrow> find_point width height landmarks 0;
       left_shoulder \<leftarrow> find_point width height landmarks 11;
       right_shoulder \<leftarrow> find_point width height landmarks 12;
       left_knee \<leftarrow> find_point width height landmarks 25;
       right_knee \<leftarrow> find_point width height landmarks 26;
       let hip_center_y = (snd left_hip + snd right_hip) / 2;
       let shoulder_y = (snd left_shoulder + snd right_shoulder) / 2;
       upright_q \<leftarrow> py_div \<bar>snd nose - hip_center_y\<bar> (torso_dist * 0.6);
       let upright_accuracy = max 0 (50 * (1 - upright_q));
       spine_q \<leftarrow> py_div \<bar>shoulder_y - snd nose\<bar> (torso_dist * 0.6);
       let spine_accuracy = max 0 (30 * (1 - spine_q));
       let legs_accuracy =
             (if snd left_knee > snd left_hip \<and> snd right_knee > snd right_hip then 20 else 5);
       let accuracy = upright_accuracy + spine_accuracy + legs_accuracy;
       Some (min 100 (max 0 accuracy))
     }"

text \<open>
  \<open>check_pose_accuracy\<close> (lines 103-275). \<open>results\<close> is \<open>None\<close> for a falsy results
  object. A level outside 1-5 leaves \<open>accuracy\<close> at its initial \<open>0.0\<close>. The debug
  printing is left out.
\<close>

definition check_pose_accuracy ::
  "nat \<Rightarrow> nat \<Rightarrow> int \<Rightarrow> results option \<Rightarrow> (bool \<times> real) option" where
  "check_pose_accuracy width height pose_level res =
     (case res of
        None \<Rightarrow> Some (False, 0)
      | Some r \<Rightarrow>
          (case pose_landmarks r of
             None \<Rightarrow> Some (False, 0)
           | Some landmarks \<Rightarrow>
               do {
                 torso_dist \<leftarrow> compute_torso_dist width height landmarks;
                 accuracy \<leftarrow>
                   (if pose_level = 1 then mountain_accuracy width height landmarks torso_dist
                    else if pose_level = 2 then tree_accuracy width height landmarks torso_dist
                    else if pose_level = 3 then warrior_accuracy width height landmarks torso_dist
                    else if pose_level = 4 then child_accuracy width height landmarks torso_dist
                    else if pose_level = 5 then lotus_accuracy width height landmarks torso_dist
                    else Some 0);
                 let is_correct = (accuracy \<ge> ACCURACY_THRESHOLD);
                 Some (is_correct, accuracy)
               }))"

subsection \<open>Session state and the per-frame loop body (lines 550-580, 671-763)\<close>

text \<open>
  The module-level variables the loop mutates. \<open>accuracy_history\<close> is the dict of
  deques, one per level 1-5; \<open>timing_settings\<close> the dict of hold times in seconds.
\<close>

record session =
  current_level :: int
  pose_hold_time :: real
  pose_correct :: bool
  level_complete :: bool
  last_incorrect_feedback_time :: real
  accuracy_history :: "int \<rightharpoonup> real list"
  debug_metrics :: bool

definition timing_settings :: "int \<rightharpoonup> real" where
  "timing_settings = map_of [(1, 2.0), (2, 3.0), (3, 2.5), (4, 2.0), (5, 3.0)]"

definition initial_session :: session where
  "initial_session =
     \<lparr>current_level = 1, pose_hold_time = 0, pose_correct = False, level_complete = False,
      last_incorrect_feedback_time = 0,
      accuracy_history = (\<lambda>i. if 1 \<le> i \<and> i < 6 then Some [] else None),
      debug_metrics = False\<rparr>"

text \<open>\<open>deque(maxlen=n).append(v)\<close>: append on the right, then drop from the left if too long.\<close>

definition deque_append :: "nat \<Rightarrow> real list \<Rightarrow> real \<Rightarrow> real list" where
  "deque_append maxlen d v = (let d' = d @ [v] in if length d' > maxlen then tl d' else d')"

text \<open>What the loop hands to the speech queue, in order.\<close>

datatype speech =
    Pose_feedback bool int
  | Level_complete int
  | Pose_sound int
  | Voice_instruction int
  | Restart_announcement
  | Reset_announcement
  | Debug_announcement bool

text \<open>
  One pass of the loop takes from outside: the shape of the captured frame, the
  detector's results object (never \<open>None\<close>), the readings of \<open>time.time()\<close> at line
  713 (\<open>clock_hold\<close>, read only when a hold starts) and at line 716 or 755
  (\<open>clock_now\<close>), and the key code \<open>cv2.waitKey(1) & 0xFF\<close> (255 when no key is down).
\<close>

record frame =
  frame_width :: nat
  frame_height :: nat
  detected :: results
  clock_hold :: real
  clock_now :: real
  key :: nat

text \<open>
  Lines 679-681. \<open>None\<close> is \<open>KeyError\<close> (no deque for the level) or
  \<open>ZeroDivisionError\<close> (empty deque).
\<close>

definition smooth :: "session \<Rightarrow> real \<Rightarrow> (session \<times> real) option" where
  "smooth s accuracy =
     do {
       let adjusted_accuracy = min 100 (accuracy * SENSITIVITY);
       history \<leftarrow> accuracy_history s (current_level s);
       let history' = deque_append SMOOTHING_WINDOW history adjusted_accuracy;
       smoothed_accuracy \<leftarrow> py_div (sum_list history') (real (length history'));
       Some (s\<lparr>accuracy_history := (accuracy_history s)(current_level s \<mapsto> history')\<rparr>,
             smoothed_accuracy)
     }"

text \<open>Lines 671-681: raw score of the frame, forced to zero without landmarks, then smoothed.\<close>

definition frame_scores :: "session \<Rightarrow> frame \<Rightarrow> (session \<times> real) option" where
  "frame_scores s f =
     do {
       (is_correct_raw, accuracy) \<leftarrow>
         check_pose_accuracy (frame_width f) (frame_height f) (current_level s) (Some (detected f));
       let accuracy = (if pose_landmarks (detected f) = None then 0 else accuracy);
       smooth s accuracy
     }"

text \<open>
  Lines 682-763 without the drawing: the hold timer and the level progression.
  \<open>None\<close> is the \<open>KeyError\<close> of \<open>timing_settings[current_level]\<close> (line 706).
\<close>

definition progression ::
  "session \<Rightarrow> real \<Rightarrow> real \<Rightarrow> real \<Rightarrow> (session \<times> speech list) option" where
  "progression s smoothed_accuracy t_hold t_now =
     do {
       let is_correct = (smoothed_accuracy \<ge> ACCURACY_THRESHOLD);
       required_time \<leftarrow> timing_settings (current_level s);
       if is_correct then
         do {
           let (s1, said1) =
                 (if \<not> pose_correct s
                  then (s\<lparr>pose_hold_time := t_hold, pose_correct := True\<rparr>,
                        [Pose_feedback True (current_level s)])
                  else (s, []));
           let hold_duration = t_now - pose_hold_time s1;
           let (s2, said2) =
                 (if hold_duration \<ge> required_time \<and> \<not> level_complete s1 then
                    (if current_level s1 < 5
                     then (s1\<lparr>current_level := current_level s1 + 1,
                               pose_correct := False, level_complete := False\<rparr>,
                           [Level_complete (current_level s1),
                            Pose_sound (current_level s1 + 1),
                            Voice_instruction (current_level s1 + 1)])
                     else (s1\<lparr>current_level := 1,
                               pose_correct := False, level_complete := False\<rparr>,
                           [Level_complete (current_level s1), Restart_announcement]))
                  else (s1, []));
           Some (s2\<lparr>last_incorrect_feedback_time := 0\<rparr>, said1 @ said2)
         }
       else
         do {
           let now = t_now;
           let (s1, said) =
                 (if pose_correct s
                  then (s\<lparr>last_incorrect_feedback_time := now\<rparr>,
                        [Pose_feedback False (current_level s)])
                  else if last_incorrect_feedback_time s = 0
                          \<or> now - last_incorrect_feedback_time s > 2
                  then (s\<lparr>last_incorrect_feedback_time := now\<rparr>,
                        [Pose_feedback False (current_level s)])
                  else (s, []));
           Some (s1\<lparr>pose_correct := False, level_complete := False\<rparr>, said)
         }
     }"

definition frame_step :: "session \<Rightarrow> frame \<Rightarrow> (session \<times> speech list) option" where
  "frame_step s f =
     do {
       (s', smoothed_accuracy) \<leftarrow> frame_scores s f;
       progression s' smoothed_accuracy (clock_hold f) (clock_now f)
     }"

text \<open>
  Lines 780-802, the keyboard: \<open>q\<close> (113) leaves the loop, \<open>r\<close> (114) resets to level 1,
  \<open>d\<close> (100) toggles the debug printing, \<open>1\<close>-\<open>5\<close> (49-53) jump to that level.
\<close>

datatype control = Continue | Break

definition handle_key :: "session \<Rightarrow> nat \<Rightarrow> control \<times> session \<times> speech list" where
  "handle_key s k =
     (if k = 113 then (Break, s, [])
      else if k = 114
      then (Continue,
            s\<lparr>current_level := 1, pose_correct := False, level_complete := False\<rparr>,
            [Reset_announcement])
      else if k = 100
      then (Continue, s\<lparr>debug_metrics := \<not> debug_metrics s\<rparr>,
            [Debug_announcement (\<not> debug_metrics s)])
      else if k \<in> set [49, 50, 51, 52, 53]
      then (let new_level = int k - 48
            in if 1 \<le> new_level \<and> new_level \<le> 5
               then (Continue,
                     s\<lparr>current_level := new_level, pose_correct := False,
                       level_complete := False\<rparr>,
                     [Pose_sound new_level, Voice_instruction new_level])
               else (Continue, s, []))
      else (Continue, s, []))"

text \<open>
  The \<open>while True\<close> loop (lines 641-802) over the frames the camera delivers; it ends
  when the camera stops delivering or on \<open>q\<close>. Drawing and display are left out.
\<close>

fun run :: "session \<Rightarrow> frame list \<Rightarrow> (session \<times> speech list) option" where
  "run s [] = Some (s, [])"
| "run s (f # fs) =
     do {
       (s1, said1) \<leftarrow> frame_step s f;
       let (c, s2, said2) = handle_key s1 (key f);
       if c = Break then Some (s2, said1 @ said2)
       else do {
         (s3, said3) \<leftarrow> run s2 fs;
         Some (s3, said1 @ said2 @ said3)
       }
     }"

section \<open>Specification-side notions\<close>

text \<open>
  The interior angle at the vertex \<open>p1\<close> between the rays towards \<open>p0\<close> and \<open>p2\<close>, in
  degrees, by the dot product of the two ray vectors. This follows the wording of the
  specification and is what \<open>angle_calc\<close> is compared with.
\<close>

definition interior_angle_deg :: "point \<Rightarrow> point \<Rightarrow> point \<Rightarrow> real" where
  "interior_angle_deg p0 p1 p2 =
     (let u = (fst p0 - fst p1, snd p0 - snd p1);
          v = (fst p2 - fst p1, snd p2 - snd p1)
      in arccos ((fst u * fst v + snd u * snd v)
                 / (sqrt ((fst u)\<^sup>2 + (snd u)\<^sup>2) * sqrt ((fst v)\<^sup>2 + (snd v)\<^sup>2)))
         * 180 / pi)"

text \<open>The pixel position of a landmark: its fractions scaled by the frame and truncated.\<close>

definition to_pixel :: "nat \<Rightarrow> nat \<Rightarrow> landmark \<Rightarrow> point" where
  "to_pixel width height lm =
     (real_of_int (py_int (x lm * real width)), real_of_int (py_int (y lm * real height)))"

text \<open>
  The pixel position the scorer uses for a landmark index: \<open>(0, 0)\<close> when the list is
  too short.
\<close>

definition point_at :: "nat \<Rightarrow> nat \<Rightarrow> landmark list \<Rightarrow> nat \<Rightarrow> point" where
  "point_at width height landmarks n =
     (if n < length landmarks then to_pixel width height (landmarks ! n) else (0, 0))"

definition midpoint_of :: "point \<Rightarrow> point \<Rightarrow> point" where
  "midpoint_of a b = ((fst a + fst b) / 2, (snd a + snd b) / 2)"

text \<open>
  The torso scale in the specification's words: the Euclidean distance from the
  shoulder midpoint to the hip midpoint, replaced by a quarter of the larger frame
  side when it is below one pixel.
\<close>

definition torso_scale :: "nat \<Rightarrow> nat \<Rightarrow> landmark list \<Rightarrow> real" where
  "torso_scale width height landmarks =
     (let mid_sh = midpoint_of (point_at width height landmarks 11)
                               (point_at width height landmarks 12);
          mid_hip = midpoint_of (point_at width height landmarks 23)
                                (point_at width height landmarks 24);
          d = sqrt ((fst mid_sh - fst mid_hip)\<^sup>2 + (snd mid_sh - snd mid_hip)\<^sup>2)
      in if d < 1 then real (max height width) / 4 else d)"

text \<open>
  The arm-straightness score in the specification's words: the deviation from 170
  degrees of the interior angle at the elbow, between the rays to the shoulder and to
  the wrist, with weight 15 and tolerance 40.
\<close>

definition arm_straightness_at_elbow :: "point \<Rightarrow> point \<Rightarrow> point \<Rightarrow> real" where
  "arm_straightness_at_elbow shoulder elbow wrist =
     max 0 (15 * (1 - \<bar>real_of_int (angle_calc shoulder elbow wrist) - 170\<bar> / 40))"

text \<open>
  A standing figure on a 640 x 480 frame with both arms hanging straight down:
  shoulders at pixel (400, 120) and (240, 120), elbows at (400, 240) and (240, 240),
  wrists at (400, 360) and (240, 360), hips at (360, 360) and (280, 360), both ankles
  at (320, 420), every other landmark at the centre.
\<close>

definition straight_arms :: "landmark list" where
  "straight_arms =
     (replicate 33 \<lparr>x = 1 / 2, y = 1 / 2\<rparr>)
       [11 := \<lparr>x = 5 / 8, y = 1 / 4\<rparr>, 12 := \<lparr>x = 3 / 8, y = 1 / 4\<rparr>,
        13 := \<lparr>x = 5 / 8, y = 1 / 2\<rparr>, 14 := \<lparr>x = 3 / 8, y = 1 / 2\<rparr>,
        15 := \<lparr>x = 5 / 8, y = 3 / 4\<rparr>, 16 := \<lparr>x = 3 / 8, y = 3 / 4\<rparr>,
        23 := \<lparr>x = 9 / 16, y = 3 / 4\<rparr>, 24 := \<lparr>x = 7 / 16, y = 3 / 4\<rparr>,
        27 := \<lparr>x = 1 / 2, y = 7 / 8\<rparr>, 28 := \<lparr>x = 1 / 2, y = 7 / 8\<rparr>]"

text \<open>
  A session the loop can be in: the level is one of 1-5 and each of them has its
  deque.
\<close>

definition session_ok :: "session \<Rightarrow> bool" where
  "session_ok s \<longleftrightarrow>
     1 \<le> current_level s \<and> current_level s \<le> 5
     \<and> list_all (\<lambda>l. accuracy_history s l \<noteq> None) [1, 2, 3, 4, 5]"

text \<open>
  The instant from which the hold of a correct frame is measured: the recorded start
  while a hold is running, the frame's own reading when the hold starts with it.
\<close>

definition hold_start :: "session \<Rightarrow> frame \<Rightarrow> real" where
  "hold_start s f = (if pose_correct s then pose_hold_time s else clock_hold f)"

text \<open>
  Frames for concrete runs: the figure \<open>straight_arms\<close>, or no detected pose, on a
  640 x 480 frame, with both clock readings at \<open>t\<close> and no key down.
\<close>

definition straight_arms_frame :: "real \<Rightarrow> frame" where
  "straight_arms_frame t =
     \<lparr>frame_width = 640, frame_height = 480,
      detected = \<lparr>pose_landmarks = Some straight_arms\<rparr>,
      clock_hold = t, clock_now = t, key = 255\<rparr>"

definition no_pose_frame :: "real \<Rightarrow> frame" where
  "no_pose_frame t =
     \<lparr>frame_width = 640, frame_height = 480,
      detected = \<lparr>pose_landmarks = None\<rparr>,
      clock_hold = t, clock_now = t, key = 255\<rparr>"

text \<open>
  \<open>holds_until s h0 T fs\<close>: processed in turn from the session \<open>s\<close>, every frame of
  \<open>fs\<close> is judged correct (smoothed accuracy at least the threshold) with no key down,
  and the time since \<open>h0\<close> stays below \<open>T\<close> at every frame but the last, where it
  reaches \<open>T\<close>. With \<open>h0\<close> the start of the hold and \<open>T\<close> the hold time of the level,
  this is a pose held without interruption for the required time.
\<close>

fun holds_until :: "session \<Rightarrow> real \<Rightarrow> real \<Rightarrow> frame list \<Rightarrow> bool" where
  "holds_until s h0 T [] = False"
| "holds_until s h0 T (f # fs) =
     (case frame_scores s f of
        None \<Rightarrow> False
      | Some (s1, smoothed_accuracy) \<Rightarrow>
          ACCURACY_THRESHOLD \<le> smoothed_accuracy \<and> key f = 255
          \<and> (if fs = [] then T \<le> clock_now f - h0
               else clock_now f - h0 < T
                    \<and> (case frame_step s f of
                           None \<Rightarrow> False
                         | Some (s', said) \<Rightarrow> holds_until s' h0 T fs)))"

section \<open>Landmark lookup\<close>

lemma find_point_total: "0 \<le> p \<Longrightarrow> \<exists>pt. find_point w h lms p = Some pt"
  by (simp add: find_point_def py_getitem_def)

lemma find_point_cases:
  "find_point w h lms p =
     (if int (length lms) \<le> p then Some (0, 0)
      else if - int (length lms) \<le> p
      then Some (to_pixel w h (lms ! nat (if p < 0 then int (length lms) + p else p)))
      else None)"
  by (simp add: find_point_def py_getitem_def to_pixel_def)

text \<open>
  C8, as stated, fails: on an empty landmark list the index \<open>-1\<close> passes the guard
  \<open>p < len\<close> and the subscript raises \<open>IndexError\<close>.
\<close>

theorem find_point_raises_below_range: "find_point 640 480 [] (- 1) = None"
  by (simp add: find_point_def py_getitem_def)

text \<open>
  C8, amended: \<open>find_point\<close> returns \<open>(0, 0)\<close> for every index at or beyond the length,
  returns the scaled and truncated coordinates of the landmark for every index from
  \<open>-len\<close> up to \<open>len - 1\<close> (a negative index counting from the end), and raises only
  for an index below \<open>-len\<close>. In particular it never raises for an index \<open>\<ge> 0\<close>.
\<close>

theorem find_point_behaviour:
  "find_point w h lms p =
     (if int (length lms) \<le> p then Some (0, 0)
      else if - int (length lms) \<le> p
      then Some (real_of_int (py_int (x (lms ! nat (if p < 0 then int (length lms) + p else p)) * real w)),
                 real_of_int (py_int (y (lms ! nat (if p < 0 then int (length lms) + p else p)) * real h)))
      else None)"
  by (simp add: find_point_def py_getitem_def)

text \<open>
  C10: a negative index \<open>p\<close> with \<open>-len \<le> p < 0\<close> passes the guard and yields the scaled
  coordinates of the landmark at position \<open>len + p\<close>; the \<open>(0, 0)\<close> branch is taken
  exactly by the indices \<open>p \<ge> len\<close>, every other index going through the subscript.
\<close>

theorem find_point_negative_index:
  assumes "- int (length lms) \<le> p" and "p < 0"
  shows "find_point w h lms p = Some (to_pixel w h (lms ! nat (int (length lms) + p)))
         \<and> (\<forall>q. find_point w h lms q =
                  (if int (length lms) \<le> q then Some (0, 0)
                   else map_option (to_pixel w h) (py_getitem lms q)))"
  using assms by (simp add: find_point_def py_getitem_def to_pixel_def)

theorem find_point_negative_index_witness:
  "- int (length [\<lparr>x = 1 / 2, y = 1 / 4\<rparr>, \<lparr>x = 1 / 8, y = 3 / 4\<rparr>]) \<le> - 1 \<and> (- 1 :: int) < 0
   \<and> find_point 640 480 [\<lparr>x = 1 / 2, y = 1 / 4\<rparr>, \<lparr>x = 1 / 8, y = 3 / 4\<rparr>] (- 1) = Some (80, 360)"
  using find_point_negative_index
          [of "[\<lparr>x = 1 / 2, y = 1 / 4\<rparr>, \<lparr>x = 1 / 8, y = 3 / 4\<rparr>]" "- 1" 640 480]
  by (simp add: to_pixel_def py_int_def py_getitem_def)

section \<open>The angle at a vertex\<close>

lemma cauchy_schwarz2:
  fixes u1 u2 v1 v2 :: real
  shows "\<bar>u1 * v1 + u2 * v2\<bar> \<le> sqrt (u1\<^sup>2 + u2\<^sup>2) * sqrt (v1\<^sup>2 + v2\<^sup>2)"
proof -
  have "(u1 * v1 + u2 * v2)\<^sup>2 + (u1 * v2 - u2 * v1)\<^sup>2 = (u1\<^sup>2 + u2\<^sup>2) * (v1\<^sup>2 + v2\<^sup>2)"
    by (simp add: power2_eq_square algebra_simps)
  moreover have "0 \<le> (u1 * v2 - u2 * v1)\<^sup>2" by simp
  ultimately have "(u1 * v1 + u2 * v2)\<^sup>2 \<le> (u1\<^sup>2 + u2\<^sup>2) * (v1\<^sup>2 + v2\<^sup>2)"
    by linarith
  then have "sqrt ((u1 * v1 + u2 * v2)\<^sup>2) \<le> sqrt ((u1\<^sup>2 + u2\<^sup>2) * (v1\<^sup>2 + v2\<^sup>2))"
    by (rule real_sqrt_le_mono)
  then show ?thesis
    by (simp add: real_sqrt_mult)
qed

lemma angle_calc_unfold:
  fixes p0 p1 p2 :: point
  defines "u1 \<equiv> fst p0 - fst p1" and "u2 \<equiv> snd p0 - snd p1"
      and "v1 \<equiv> fst p2 - fst p1" and "v2 \<equiv> snd p2 - snd p1"
  assumes ne: "p0 \<noteq> p1" "p2 \<noteq> p1"
  shows "angle_calc p0 p1 p2 =
           py_int (arccos ((u1 * v1 + u2 * v2) / (sqrt (u1\<^sup>2 + u2\<^sup>2) * sqrt (v1\<^sup>2 + v2\<^sup>2)))
                   * 180 / pi)"
proof -
  let ?a = "(fst p1 - fst p0)\<^sup>2 + (snd p1 - snd p0)\<^sup>2"
  let ?b = "(fst p1 - fst p2)\<^sup>2 + (snd p1 - snd p2)\<^sup>2"
  let ?c = "(fst p2 - fst p0)\<^sup>2 + (snd p2 - snd p0)\<^sup>2"
  have a: "?a = u1\<^sup>2 + u2\<^sup>2" and b: "?b = v1\<^sup>2 + v2\<^sup>2"
    by (simp_all add: u1_def u2_def v1_def v2_def power2_commute)
  have abc: "?a + ?b - ?c = 2 * (u1 * v1 + u2 * v2)"
    by (simp add: u1_def u2_def v1_def v2_def power2_eq_square algebra_simps)
  have apos: "0 < u1\<^sup>2 + u2\<^sup>2"
    using ne(1) by (auto simp: u1_def u2_def prod_eq_iff sum_power2_gt_zero_iff)
  have bpos: "0 < v1\<^sup>2 + v2\<^sup>2"
    using ne(2) by (auto simp: v1_def v2_def prod_eq_iff sum_power2_gt_zero_iff)
  let ?n = "sqrt (u1\<^sup>2 + u2\<^sup>2) * sqrt (v1\<^sup>2 + v2\<^sup>2)"
  have npos: "0 < ?n" using apos bpos by simp
  have four: "sqrt 4 = (2::real)"
    using real_sqrt_abs[of 2] by simp
  have "sqrt (4 * (u1\<^sup>2 + u2\<^sup>2) * (v1\<^sup>2 + v2\<^sup>2)) = sqrt 4 * ?n"
    by (simp only: real_sqrt_mult mult.assoc)
  then have d: "sqrt (4 * ?a * ?b) = 2 * ?n"
    by (simp only: a b four)
  have q: "(?a + ?b - ?c) / sqrt (4 * ?a * ?b) = (u1 * v1 + u2 * v2) / ?n"
    unfolding abc d by (rule mult_divide_mult_cancel_left) simp
  have cs: "\<bar>u1 * v1 + u2 * v2\<bar> \<le> ?n"
    by (rule cauchy_schwarz2)
  then have "- ?n \<le> u1 * v1 + u2 * v2" and "u1 * v1 + u2 * v2 \<le> ?n"
    by linarith+
  then have "- 1 \<le> (u1 * v1 + u2 * v2) / ?n" and "(u1 * v1 + u2 * v2) / ?n \<le> 1"
    using npos by (simp_all add: pos_le_divide_eq pos_divide_le_eq)
  then have range: "\<not> ((u1 * v1 + u2 * v2) / ?n < - 1 \<or> 1 < (u1 * v1 + u2 * v2) / ?n)"
    by linarith
  have dne: "sqrt (4 * ?a * ?b) \<noteq> 0"
    unfolding d using npos by linarith
  show ?thesis
    unfolding angle_calc_def Let_def
    using dne range by (simp only: q if_False)
qed

lemma angle_calc_degenerate: "p0 = p1 \<or> p2 = p1 \<Longrightarrow> angle_calc p0 p1 p2 = 0"
  by (auto simp: angle_calc_def Let_def)

text \<open>
  C7: \<open>angle_calc p0 p1 p2\<close> is the interior angle at \<open>p1\<close> between the rays to \<open>p0\<close> and
  \<open>p2\<close>, in degrees, truncated to an integer; when a ray has length zero (the division
  by zero of the law-of-cosines quotient) it is \<open>0\<close>. The function is total: no input
  makes it raise.
\<close>

theorem angle_calc_interior_angle:
  "angle_calc p0 p1 p2 =
     (if p0 = p1 \<or> p2 = p1 then 0 else py_int (interior_angle_deg p0 p1 p2))"
proof (cases "p0 = p1 \<or> p2 = p1")
  case True
  then show ?thesis by (simp only: angle_calc_degenerate if_True)
next
  case False
  then have "p0 \<noteq> p1" "p2 \<noteq> p1" by simp_all
  from angle_calc_unfold[OF this] False show ?thesis
    by (simp add: interior_angle_deg_def Let_def)
qed

section \<open>Range of the accuracy\<close>

lemma clamp_ex: "\<exists>a. Some (min 100 (max 0 v)) = Some a \<and> 0 \<le> a \<and> a \<le> (100::real)"
  by simp

lemma py_div_scaled:
  assumes "t \<noteq> 0"
  shows "py_div a (t * 0.6) = Some (a / (t * 0.6))"
    and "py_div a (t * 0.9) = Some (a / (t * 0.9))"
    and "py_div a (t * 0.75) = Some (a / (t * 0.75))"
  using assms by (simp_all add: py_div_def)

lemma py_div_40: "py_div a 40 = Some (a / 40)"
  by (simp add: py_div_def)

lemma cfg_level_1:
  "cfg_get (POSE_CONFIG 1) ''feet_weight'' 50 = 50"
  "cfg_get (POSE_CONFIG 1) ''shoulder_weight'' 20 = 20"
  "cfg_get (POSE_CONFIG 1) ''arm_weight'' 15 = 15"
  "cfg_get (POSE_CONFIG 1) ''arm_tolerance'' 40 = 40"
  by (simp_all add: cfg_get_def POSE_CONFIG_def)

lemma compute_torso_dist_pos:
  assumes "0 < max h w"
  shows "\<exists>t. compute_torso_dist w h lms = Some t \<and> 0 < t"
proof -
  obtain ls rs lh rh where
    "find_point w h lms 11 = Some ls" "find_point w h lms 12 = Some rs"
    "find_point w h lms 23 = Some lh" "find_point w h lms 24 = Some rh"
    using find_point_total[of 11 w h lms] find_point_total[of 12 w h lms]
          find_point_total[of 23 w h lms] find_point_total[of 24 w h lms]
    by auto
  with assms show ?thesis
    by (auto simp add: compute_torso_dist_def Let_def)
qed

lemma mountain_scores_total:
  assumes "t \<noteq> 0"
  shows "\<exists>a b c d. mountain_scores w h lms t = Some (a, b, c, d)"
proof -
  obtain p11 p12 p27 p28 p15 p16 p13 p14 where pts:
    "find_point w h lms 11 = Some p11" "find_point w h lms 12 = Some p12"
    "find_point w h lms 27 = Some p27" "find_point w h lms 28 = Some p28"
    "find_point w h lms 15 = Some p15" "find_point w h lms 16 = Some p16"
    "find_point w h lms 13 = Some p13" "find_point w h lms 14 = Some p14"
    using find_point_total[of 11 w h lms] find_point_total[of 12 w h lms]
          find_point_total[of 27 w h lms] find_point_total[of 28 w h lms]
          find_point_total[of 15 w h lms] find_point_total[of 16 w h lms]
          find_point_total[of 13 w h lms] find_point_total[of 14 w h lms]
    by auto
  show ?thesis
    unfolding mountain_scores_def
    by (simp only: pts Option.bind.simps Let_def cfg_level_1 py_div_scaled[OF assms] py_div_40)
       blast
qed

lemma mountain_range:
  assumes "t \<noteq> 0"
  shows "\<exists>a. mountain_accuracy w h lms t = Some a \<and> 0 \<le> a \<and> a \<le> 100"
proof -
  obtain a b c d where "mountain_scores w h lms t = Some (a, b, c, d)"
    using mountain_scores_total[OF assms] by blast
  then show ?thesis
    unfolding mountain_accuracy_def
    by (simp only: Option.bind.simps Let_def case_prod_conv) (rule clamp_ex)
qed

lemma tree_range:
  assumes "t \<noteq> 0"
  shows "\<exists>a. tree_accuracy w h lms t = Some a \<and> 0 \<le> a \<and> a \<le> 100"
proof -
  obtain p23 p24 p27 p28 p25 p26 where pts:
    "find_point w h lms 23 = Some p23" "find_point w h lms 24 = Some p24"
    "find_point w h lms 27 = Some p27" "find_point w h lms 28 = Some p28"
    "find_point w h lms 25 = Some p25" "find_point w h lms 26 = Some p26"
    using find_point_total[of 23 w h lms] find_point_total[of 24 w h lms]
          find_point_total[of 27 w h lms] find_point_total[of 28 w h lms]
          find_point_total[of 25 w h lms] find_point_total[of 26 w h lms]
    by auto
  show ?thesis
    unfolding tree_accuracy_def
    apply (simp only: pts Option.bind.simps Let_def py_div_scaled[OF assms])
    apply (cases "snd p27 < snd p23 - t * 0.35"; cases "snd p28 < snd p24 - t * 0.35";
           simp only: if_True if_False case_prod_conv Option.bind.simps; rule clamp_ex)
    done
qed

lemma warrior_range:
  "\<exists>a. warrior_accuracy w h lms t = Some a \<and> 0 \<le> a \<and> a \<le> 100"
proof -
  obtain p23 p24 p25 p26 p27 p28 p15 p16 p11 p12 where pts:
    "find_point w h lms 23 = Some p23" "find_point w h lms 24 = Some p24"
    "find_point w h lms 25 = Some p25" "find_point w h lms 26 = Some p26"
    "find_point w h lms 27 = Some p27" "find_point w h lms 28 = Some p28"
    "find_point w h lms 15 = Some p15" "find_point w h lms 16 = Some p16"
    "find_point w h lms 11 = Some p11" "find_point w h lms 12 = Some p12"
    using find_point_total[of 23 w h lms] find_point_total[of 24 w h lms]
          find_point_total[of 25 w h lms] find_point_total[of 26 w h lms]
          find_point_total[of 27 w h lms] find_point_total[of 28 w h lms]
          find_point_total[of 15 w h lms] find_point_total[of 16 w h lms]
          find_point_total[of 11 w h lms] find_point_total[of 12 w h lms]
    by auto
  show ?thesis
    unfolding warrior_accuracy_def
    by (simp only: pts Option.bind.simps Let_def) (rule clamp_ex)
qed

lemma child_range:
  assumes "t \<noteq> 0"
  shows "\<exists>a. child_accuracy w h lms t = Some a \<and> 0 \<le> a \<and> a \<le> 100"
proof -
  obtain p0 p23 p24 p25 p26 where pts:
    "find_point w h lms 0 = Some p0"
    "find_point w h lms 23 = Some p23" "find_point w h lms 24 = Some p24"
    "find_point w h lms 25 = Some p25" "find_point w h lms 26 = Some p26"
    using find_point_total[of 0 w h lms]
          find_point_total[of 23 w h lms] find_point_total[of 24 w h lms]
          find_point_total[of 25 w h lms] find_point_total[of 26 w h lms]
    by auto
  show ?thesis
    unfolding child_accuracy_def
    apply (simp only: pts Option.bind.simps Let_def py_div_scaled[OF assms])
    apply (split if_split)
    apply (intro conjI impI; simp only: Option.bind.simps; rule clamp_ex)
    done
qed

lemma lotus_range:
  assumes "t \<noteq> 0"
  shows "\<exists>a. lotus_accuracy w h lms t = Some a \<and> 0 \<le> a \<and> a \<le> 100"
proof -
  obtain p0 p23 p24 p25 p26 p11 p12 where pts:
    "find_point w h lms 0 = Some p0"
    "find_point w h lms 23 = Some p23" "find_point w h lms 24 = Some p24"
    "find_point w h lms 25 = Some p25" "find_point w h lms 26 = Some p26"
    "find_point w h lms 11 = Some p11" "find_point w h lms 12 = Some p12"
    using find_point_total[of 0 w h lms]
          find_point_total[of 23 w h lms] find_point_total[of 24 w h lms]
          find_point_total[of 25 w h lms] find_point_total[of 26 w h lms]
          find_point_total[of 11 w h lms] find_point_total[of 12 w h lms]
    by auto
  show ?thesis
    unfolding lotus_accuracy_def
    by (simp only: pts Option.bind.simps Let_def py_div_scaled[OF assms]) (rule clamp_ex)
qed

lemma level_accuracy_range:
  assumes "t \<noteq> 0"
  shows "\<exists>a. (if pose_level = 1 then mountain_accuracy w h lms t
              else if pose_level = 2 then tree_accuracy w h lms t
              else if pose_level = 3 then warrior_accuracy w h lms t
              else if pose_level = 4 then child_accuracy w h lms t
              else if pose_level = 5 then lotus_accuracy w h lms t
              else Some 0) = Some a \<and> 0 \<le> a \<and> a \<le> 100"
  using mountain_range[OF assms] tree_range[OF assms] warrior_range
        child_range[OF assms] lotus_range[OF assms]
  by simp

lemma check_pose_accuracy_present:
  assumes "0 < max height width"
  shows "\<exists>accuracy. check_pose_accuracy width height pose_level (Some \<lparr>pose_landmarks = Some lms\<rparr>)
                       = Some (ACCURACY_THRESHOLD \<le> accuracy, accuracy)
                     \<and> 0 \<le> accuracy \<and> accuracy \<le> 100"
proof -
  obtain t where t: "compute_torso_dist width height lms = Some t" "0 < t"
    using compute_torso_dist_pos[OF assms] by blast
  then have "t \<noteq> 0" by simp
  from level_accuracy_range[OF this, of pose_level width height lms]
  obtain a where a:
    "(if pose_level = 1 then mountain_accuracy width height lms t
      else if pose_level = 2 then tree_accuracy width height lms t
      else if pose_level = 3 then warrior_accuracy width height lms t
      else if pose_level = 4 then child_accuracy width height lms t
      else if pose_level = 5 then lotus_accuracy width height lms t
      else Some 0) = Some a" "0 \<le> a" "a \<le> 100"
    by blast
  have "check_pose_accuracy width height pose_level (Some \<lparr>pose_landmarks = Some lms\<rparr>)
          = Some (ACCURACY_THRESHOLD \<le> a, a)"
    unfolding check_pose_accuracy_def
    by (simp only: option.case results.select_convs t(1) Option.bind.simps a(1) Let_def)
  with a(2,3) show ?thesis by blast
qed

text \<open>
  C2: without landmarks (no results object, or a results object whose
  \<open>pose_landmarks\<close> is \<open>None\<close>) the scorer returns exactly \<open>(False, 0.0)\<close>, at every level.
\<close>

theorem check_pose_accuracy_absent:
  "check_pose_accuracy width height pose_level None = Some (False, 0)
   \<and> check_pose_accuracy width height pose_level (Some \<lparr>pose_landmarks = None\<rparr>) = Some (False, 0)"
  by (simp add: check_pose_accuracy_def)

text \<open>
  C1: on a frame of non-zero size, for every level (also outside 1-5) and every
  landmark input (absent, or a list of any length), \<open>check_pose_accuracy\<close> returns, and
  the accuracy it returns lies in \<open>[0, 100]\<close>.
\<close>

theorem check_pose_accuracy_range:
  assumes "0 < max height width"
  shows "\<exists>is_correct accuracy.
           check_pose_accuracy width height pose_level res = Some (is_correct, accuracy)
           \<and> 0 \<le> accuracy \<and> accuracy \<le> 100"
proof (cases res)
  case None
  then show ?thesis by (auto simp: check_pose_accuracy_def)
next
  case (Some r)
  show ?thesis
  proof (cases "pose_landmarks r")
    case None
    with \<open>res = Some r\<close> show ?thesis by (auto simp: check_pose_accuracy_def)
  next
    case (Some lms)
    then have "r = \<lparr>pose_landmarks = Some lms\<rparr>" by (cases r) simp
    with \<open>res = Some r\<close> check_pose_accuracy_present[OF assms, of pose_level lms]
    show ?thesis by blast
  qed
qed

theorem check_pose_accuracy_range_witness:
  "0 < max (480::nat) 640
   \<and> (\<exists>is_correct accuracy.
         check_pose_accuracy 640 480 3 (Some \<lparr>pose_landmarks = Some []\<rparr>) = Some (is_correct, accuracy)
         \<and> 0 \<le> accuracy \<and> accuracy \<le> 100)"
  using check_pose_accuracy_range[of 480 640 3 "Some \<lparr>pose_landmarks = Some []\<rparr>"]
  by simp

text \<open>
  The hypothesis on the frame is needed: on a frame of size 0 x 0 the fallback scale is
  itself zero and the first division of the level formula raises \<open>ZeroDivisionError\<close>.
  The loop never calls the scorer so, since it takes \<open>height\<close> and \<open>width\<close> from a
  frame the camera has delivered.
\<close>

lemma check_pose_accuracy_zero_frame:
  "check_pose_accuracy 0 0 1 (Some \<lparr>pose_landmarks = Some []\<rparr>) = None"
  by (simp add: check_pose_accuracy_def compute_torso_dist_def find_point_def euclidian_def
        mountain_accuracy_def mountain_scores_def py_div_def Let_def)

section \<open>The torso scale\<close>

lemma find_point_nat: "find_point w h lms (int n) = Some (point_at w h lms n)"
  by (simp add: find_point_def py_getitem_def point_at_def to_pixel_def)

lemma find_point_numeral:
  "find_point w h lms (numeral k) = Some (point_at w h lms (numeral k))"
  using find_point_nat[of w h lms "numeral k"] by simp

text \<open>
  C9: the torso distance \<open>check_pose_accuracy\<close> normalises with is the Euclidean
  distance between the shoulder midpoint and the hip midpoint, or a quarter of
  \<open>max(height, width)\<close> when that distance is below one pixel; and this is the value
  handed to the formula of the level.
\<close>

theorem torso_distance_fallback:
  "compute_torso_dist width height lms = Some (torso_scale width height lms)
   \<and> check_pose_accuracy width height pose_level (Some \<lparr>pose_landmarks = Some lms\<rparr>) =
       do {
         accuracy \<leftarrow>
           (if pose_level = 1 then mountain_accuracy width height lms (torso_scale width height lms)
            else if pose_level = 2 then tree_accuracy width height lms (torso_scale width height lms)
            else if pose_level = 3 then warrior_accuracy width height lms (torso_scale width height lms)
            else if pose_level = 4 then child_accuracy width height lms (torso_scale width height lms)
            else if pose_level = 5 then lotus_accuracy width height lms (torso_scale width height lms)
            else Some 0);
         Some (accuracy \<ge> ACCURACY_THRESHOLD, accuracy)
       }"
proof -
  have t: "compute_torso_dist width height lms = Some (torso_scale width height lms)"
    by (simp add: compute_torso_dist_def torso_scale_def find_point_numeral Let_def
          euclidian_def midpoint_of_def)
  show ?thesis
    unfolding check_pose_accuracy_def
    by (simp only: t option.case results.select_convs Option.bind.simps Let_def)
qed

section \<open>The arm scores of Mountain Pose\<close>

lemma straight_arms_points:
  "point_at 640 480 straight_arms 11 = (400, 120)"
  "point_at 640 480 straight_arms 12 = (240, 120)"
  "point_at 640 480 straight_arms 13 = (400, 240)"
  "point_at 640 480 straight_arms 14 = (240, 240)"
  "point_at 640 480 straight_arms 15 = (400, 360)"
  "point_at 640 480 straight_arms 16 = (240, 360)"
  "point_at 640 480 straight_arms 23 = (360, 360)"
  "point_at 640 480 straight_arms 24 = (280, 360)"
  "point_at 640 480 straight_arms 27 = (320, 420)"
  "point_at 640 480 straight_arms 28 = (320, 420)"
  by (simp_all add: point_at_def straight_arms_def to_pixel_def py_int_def)

lemma sqrt_of_square: "0 \<le> r \<Longrightarrow> s = r * r \<Longrightarrow> sqrt s = r"
  by (simp add: real_sqrt_mult)

lemma straight_arm_angle_at_shoulder:
  "angle_calc (400, 360) (400, 120) (400, 240) = 0"
  "angle_calc (240, 360) (240, 120) (240, 240) = 0"
proof -
  have "sqrt 3317760000 = (57600::real)"
    by (rule sqrt_of_square) simp_all
  then show "angle_calc (400, 360) (400, 120) (400, 240) = 0"
    and "angle_calc (240, 360) (240, 120) (240, 240) = 0"
    by (simp_all add: angle_calc_def Let_def py_int_def)
qed

lemma straight_arm_angle_at_elbow:
  "angle_calc (400, 120) (400, 240) (400, 360) = 180"
  "angle_calc (240, 120) (240, 240) (240, 360) = 180"
proof -
  have "sqrt 829440000 = (28800::real)"
    by (rule sqrt_of_square) simp_all
  then show "angle_calc (400, 120) (400, 240) (400, 360) = 180"
    and "angle_calc (240, 120) (240, 240) (240, 360) = 180"
    by (simp_all add: angle_calc_def Let_def py_int_def)
qed

lemma straight_arms_mountain_scores:
  "mountain_scores 640 480 straight_arms 240 = Some (50, 140 / 27, 0, 0)"
  by (simp add: mountain_scores_def find_point_numeral straight_arms_points Let_def
        straight_arm_angle_at_shoulder cfg_get_def POSE_CONFIG_def py_div_def)

lemma straight_arms_torso: "compute_torso_dist 640 480 straight_arms = Some 240"
proof -
  have "sqrt 57600 = (240::real)"
    by (rule sqrt_of_square) simp_all
  then show ?thesis
    by (simp add: compute_torso_dist_def find_point_numeral straight_arms_points Let_def
          euclidian_def)
qed

text \<open>
  C6 does not hold of the code. The angle whose deviation from 170 degrees is
  penalised is \<open>angle_calc(wrist, shoulder, elbow)\<close>, the angle at the shoulder between
  the rays to the wrist and to the elbow, not the angle at the elbow. For the figure
  \<open>straight_arms\<close> both elbows are at 180 degrees, so the score of the claim is
  \<open>15 * (1 - 10 / 40) = 11.25\<close> per arm; the code computes the angle 0 at each
  shoulder and gives both arms the score 0.
\<close>

theorem mountain_arm_scores_use_shoulder_angle:
  "mountain_scores 640 480 straight_arms 240 = Some (50, 140 / 27, 0, 0)
   \<and> compute_torso_dist 640 480 straight_arms = Some 240
   \<and> arm_straightness_at_elbow (point_at 640 480 straight_arms 11)
        (point_at 640 480 straight_arms 13) (point_at 640 480 straight_arms 15) = 45 / 4
   \<and> arm_straightness_at_elbow (point_at 640 480 straight_arms 12)
        (point_at 640 480 straight_arms 14) (point_at 640 480 straight_arms 16) = 45 / 4"
proof -
  have
    "arm_straightness_at_elbow (point_at 640 480 straight_arms 11)
        (point_at 640 480 straight_arms 13) (point_at 640 480 straight_arms 15) = 45 / 4"
    "arm_straightness_at_elbow (point_at 640 480 straight_arms 12)
        (point_at 640 480 straight_arms 14) (point_at 640 480 straight_arms 16) = 45 / 4"
    by (simp_all add: arm_straightness_at_elbow_def straight_arms_points
          straight_arm_angle_at_elbow)
  with straight_arms_mountain_scores straight_arms_torso show ?thesis
    by blast
qed

section \<open>Smoothing\<close>

lemma deque_append_nonempty: "0 < n \<Longrightarrow> deque_append n d v \<noteq> []"
  by (cases d) (auto simp: deque_append_def Let_def)

lemma smooth_total:
  assumes "accuracy_history s (current_level s) = Some h"
  shows "smooth s a =
     Some (s\<lparr>accuracy_history := (accuracy_history s)
               (current_level s \<mapsto> deque_append SMOOTHING_WINDOW h (min 100 (a * SENSITIVITY)))\<rparr>,
           sum_list (deque_append SMOOTHING_WINDOW h (min 100 (a * SENSITIVITY)))
           / real (length (deque_append SMOOTHING_WINDOW h (min 100 (a * SENSITIVITY)))))"
proof -
  have "deque_append SMOOTHING_WINDOW h (min 100 (a * SENSITIVITY)) \<noteq> []"
    by (rule deque_append_nonempty) (simp add: SMOOTHING_WINDOW_def)
  then show ?thesis
    using assms by (simp add: smooth_def Let_def py_div_def)
qed

lemma deque_append_window:
  "length h \<le> SMOOTHING_WINDOW \<Longrightarrow>
   deque_append SMOOTHING_WINDOW h v = (if length h = 4 then tl h else h) @ [v]"
  by (cases h) (auto simp: deque_append_def SMOOTHING_WINDOW_def Let_def)

lemma deque_append_length:
  "length h \<le> SMOOTHING_WINDOW \<Longrightarrow> length (deque_append SMOOTHING_WINDOW h v) \<le> SMOOTHING_WINDOW"
  by (cases h) (auto simp: deque_append_def SMOOTHING_WINDOW_def Let_def)

text \<open>
  C3: the smoothing step multiplies the raw accuracy by 1.08, clamps the product to at
  most 100, appends it to the deque of the current level (capacity 4, the oldest
  value dropped when it was full), and the smoothed accuracy is the arithmetic mean
  of the deque. From an empty deque, four raw accuracies whose adjusted value is 80
  give the deque \<open>[80, 80, 80, 80]\<close> with mean 80, and a fifth raw accuracy 0 gives
  \<open>[80, 80, 80, 0]\<close> with mean 60.
\<close>

theorem smoothing_window_mean:
  assumes "accuracy_history s (current_level s) = Some history"
    and "length history \<le> SMOOTHING_WINDOW"
  shows "(let adjusted_accuracy = min 100 (accuracy * 1.08);
              history' = (if length history = 4 then tl history else history) @ [adjusted_accuracy]
          in smooth s accuracy =
               Some (s\<lparr>accuracy_history := (accuracy_history s)(current_level s \<mapsto> history')\<rparr>,
                     sum_list history' / real (length history'))
             \<and> length history' \<le> 4)
         \<and> do { (s1, m1) \<leftarrow> smooth initial_session (2000 / 27);
                 (s2, m2) \<leftarrow> smooth s1 (2000 / 27);
                 (s3, m3) \<leftarrow> smooth s2 (2000 / 27);
                 (s4, m4) \<leftarrow> smooth s3 (2000 / 27);
                 (s5, m5) \<leftarrow> smooth s4 0;
                 Some (accuracy_history s4 1, m4, accuracy_history s5 1, m5) }
             = Some (Some [80, 80, 80, 80], 80, Some [80, 80, 80, 0], 60)"
proof -
  have gen: "smooth s accuracy =
     Some (s\<lparr>accuracy_history := (accuracy_history s)
               (current_level s \<mapsto> (if length history = 4 then tl history else history) @ [min 100 (accuracy * 1.08)])\<rparr>,
           sum_list ((if length history = 4 then tl history else history) @ [min 100 (accuracy * 1.08)])
           / real (length ((if length history = 4 then tl history else history) @ [min 100 (accuracy * 1.08)])))"
    using smooth_total[OF assms(1), of accuracy] deque_append_window[OF assms(2)]
    by (simp add: SENSITIVITY_def)
  have len: "length ((if length history = 4 then tl history else history) @ [min 100 (accuracy * 1.08)]) \<le> 4"
    using assms(2) by (auto simp: SMOOTHING_WINDOW_def)
  have run: "do { (s1, m1) \<leftarrow> smooth initial_session (2000 / 27);
                 (s2, m2) \<leftarrow> smooth s1 (2000 / 27);
                 (s3, m3) \<leftarrow> smooth s2 (2000 / 27);
                 (s4, m4) \<leftarrow> smooth s3 (2000 / 27);
                 (s5, m5) \<leftarrow> smooth s4 0;
                 Some (accuracy_history s4 1, m4, accuracy_history s5 1, m5) }
             = Some (Some [80, 80, 80, 80], 80, Some [80, 80, 80, 0], 60)"
    by (simp add: smooth_def initial_session_def Let_def py_div_def deque_append_def
          SENSITIVITY_def SMOOTHING_WINDOW_def)
  show ?thesis
    unfolding Let_def using gen len run by blast
qed

theorem smoothing_window_mean_witness:
  "accuracy_history initial_session (current_level initial_session) = Some []
   \<and> length ([] :: real list) \<le> SMOOTHING_WINDOW
   \<and> (\<exists>s'. smooth initial_session 50 = Some (s', 54))"
proof -
  have h1: "accuracy_history initial_session (current_level initial_session) = Some []"
    by (simp add: initial_session_def)
  have h2: "length ([] :: real list) \<le> SMOOTHING_WINDOW"
    by simp
  from smoothing_window_mean[OF h1 h2, of 50] h1 h2 show ?thesis
    by (simp add: Let_def)
qed

section \<open>Hold timer and level progression\<close>

lemma timing_settings_values:
  "timing_settings 1 = Some 2" "timing_settings 2 = Some 3" "timing_settings 3 = Some (5 / 2)"
  "timing_settings 4 = Some 2" "timing_settings 5 = Some 3"
  by (simp_all add: timing_settings_def)

lemma level_cases: "1 \<le> l \<Longrightarrow> l \<le> 5 \<Longrightarrow> l = 1 \<or> l = 2 \<or> l = 3 \<or> l = 4 \<or> l = (5::int)"
  by arith

lemma timing_settings_defined:
  assumes "1 \<le> l" "l \<le> 5"
  shows "\<exists>T. timing_settings l = Some T \<and> 2 \<le> T"
proof -
  from level_cases[OF assms]
  consider "l = 1" | "l = 2" | "l = 3" | "l = 4" | "l = 5" by blast
  then show ?thesis
  proof cases
    case 3
    then show ?thesis
      by (intro exI[of _ "5 / 2"]) (simp add: timing_settings_values)
  qed (simp_all add: timing_settings_values)
qed

lemma timing_settings_dom: "timing_settings l = Some T \<Longrightarrow> 1 \<le> l \<and> l \<le> 5"
  by (auto simp: timing_settings_def split: if_splits)

lemma session_ok_history:
  "session_ok s \<Longrightarrow> \<exists>h. accuracy_history s (current_level s) = Some h"
  using level_cases[of "current_level s"] by (auto simp: session_ok_def)

lemma smooth_fields:
  assumes "smooth s a = Some (s1, sm)"
  shows "current_level s1 = current_level s" "pose_correct s1 = pose_correct s"
    "level_complete s1 = level_complete s" "pose_hold_time s1 = pose_hold_time s"
    "last_incorrect_feedback_time s1 = last_incorrect_feedback_time s"
    "dom (accuracy_history s1) = dom (accuracy_history s)"
  using assms by (auto simp: smooth_def Let_def py_div_def split: Option.bind_splits if_splits)

lemma frame_scores_fields:
  assumes "frame_scores s f = Some (s1, sm)"
  shows "current_level s1 = current_level s" "pose_correct s1 = pose_correct s"
    "level_complete s1 = level_complete s" "pose_hold_time s1 = pose_hold_time s"
    "last_incorrect_feedback_time s1 = last_incorrect_feedback_time s"
    "dom (accuracy_history s1) = dom (accuracy_history s)"
  using assms smooth_fields
  by (auto simp: frame_scores_def Let_def split: Option.bind_splits prod.splits)

lemma session_ok_dom:
  "session_ok s \<longleftrightarrow>
     1 \<le> current_level s \<and> current_level s \<le> 5 \<and> {1, 2, 3, 4, 5} \<subseteq> dom (accuracy_history s)"
  by (auto simp: session_ok_def)

lemma frame_scores_total:
  assumes "session_ok s" and "0 < max (frame_height f) (frame_width f)"
  shows "\<exists>s1 sm. frame_scores s f = Some (s1, sm)"
proof -
  obtain b a where
    "check_pose_accuracy (frame_width f) (frame_height f) (current_level s) (Some (detected f))
       = Some (b, a)"
    using check_pose_accuracy_range[OF assms(2)] by blast
  moreover obtain h where "accuracy_history s (current_level s) = Some h"
    using session_ok_history[OF assms(1)] by blast
  ultimately show ?thesis
    by (simp add: frame_scores_def Let_def smooth_total)
qed

text \<open>The three ways through \<open>progression\<close>: completing, holding on, judged incorrect.\<close>

lemma progression_fire:
  assumes "ACCURACY_THRESHOLD \<le> sm" and "timing_settings (current_level s) = Some T"
    and "\<not> level_complete s"
    and "T \<le> t_now - (if pose_correct s then pose_hold_time s else t_hold)"
  shows "\<exists>s' said. progression s sm t_hold t_now = Some (s', said)
      \<and> current_level s' = (if current_level s < 5 then current_level s + 1 else 1)
      \<and> \<not> pose_correct s' \<and> \<not> level_complete s'
      \<and> accuracy_history s' = accuracy_history s
      \<and> pose_hold_time s' = (if pose_correct s then pose_hold_time s else t_hold)
      \<and> count_list said (Level_complete (current_level s)) = 1
      \<and> (\<forall>l. Level_complete l \<in> set said \<longrightarrow> l = current_level s)
      \<and> (Restart_announcement \<in> set said \<longleftrightarrow> \<not> current_level s < 5)
      \<and> (\<not> pose_correct s \<longrightarrow> Pose_feedback True (current_level s) \<in> set said)"
  using assms by (cases "pose_correct s") (simp_all add: progression_def Let_def)

lemma progression_hold:
  assumes "ACCURACY_THRESHOLD \<le> sm" and "timing_settings (current_level s) = Some T"
    and "\<not> level_complete s"
    and "\<not> T \<le> t_now - (if pose_correct s then pose_hold_time s else t_hold)"
  shows "\<exists>s' said. progression s sm t_hold t_now = Some (s', said)
      \<and> current_level s' = current_level s
      \<and> pose_correct s' \<and> \<not> level_complete s'
      \<and> pose_hold_time s' = (if pose_correct s then pose_hold_time s else t_hold)
      \<and> accuracy_history s' = accuracy_history s
      \<and> (\<forall>l. Level_complete l \<notin> set said)
      \<and> Restart_announcement \<notin> set said
      \<and> (\<not> pose_correct s \<longrightarrow> Pose_feedback True (current_level s) \<in> set said)"
  using assms by (cases "pose_correct s") (simp_all add: progression_def Let_def)

lemma progression_incorrect:
  assumes "\<not> ACCURACY_THRESHOLD \<le> sm" and "timing_settings (current_level s) = Some T"
  shows "\<exists>s' said. progression s sm t_hold t_now = Some (s', said)
      \<and> current_level s' = current_level s
      \<and> \<not> pose_correct s' \<and> \<not> level_complete s'
      \<and> accuracy_history s' = accuracy_history s
      \<and> (\<forall>l. Level_complete l \<notin> set said)"
  using assms by (cases "pose_correct s") (simp_all add: progression_def Let_def)

lemma handle_key_no_key: "handle_key s 255 = (Continue, s, [])"
  by (simp add: handle_key_def)

lemma run_no_key:
  "key f = 255 \<Longrightarrow>
   run s (f # fs) =
     do { (s1, said1) \<leftarrow> frame_step s f; (s3, said3) \<leftarrow> run s1 fs; Some (s3, said1 @ said3) }"
  by (simp add: handle_key_no_key split: Option.bind_split prod.splits)

lemma frame_step_fire:
  assumes fs: "frame_scores s f = Some (s1, sm)" and "ACCURACY_THRESHOLD \<le> sm"
    and "timing_settings (current_level s) = Some T" and "\<not> level_complete s"
    and "T \<le> clock_now f - hold_start s f"
  shows "\<exists>s' said. frame_step s f = Some (s', said)
      \<and> current_level s' = (if current_level s < 5 then current_level s + 1 else 1)
      \<and> \<not> pose_correct s' \<and> \<not> level_complete s'
      \<and> dom (accuracy_history s') = dom (accuracy_history s)
      \<and> pose_hold_time s' = hold_start s f
      \<and> count_list said (Level_complete (current_level s)) = 1
      \<and> (\<forall>l. Level_complete l \<in> set said \<longrightarrow> l = current_level s)
      \<and> (Restart_announcement \<in> set said \<longleftrightarrow> current_level s = 5)
      \<and> (\<not> pose_correct s \<longrightarrow> Pose_feedback True (current_level s) \<in> set said)"
proof -
  note eq = frame_scores_fields[OF fs]
  have lv: "current_level s \<le> 5"
    using timing_settings_dom[OF assms(3)] by simp
  from progression_fire[of sm s1 T "clock_now f" "clock_hold f"] assms(2-5)
  obtain s' said where
    "progression s1 sm (clock_hold f) (clock_now f) = Some (s', said)"
    "current_level s' = (if current_level s < 5 then current_level s + 1 else 1)"
    "\<not> pose_correct s'" "\<not> level_complete s'"
    "accuracy_history s' = accuracy_history s1"
    "pose_hold_time s' = hold_start s f"
    "count_list said (Level_complete (current_level s)) = 1"
    "\<forall>l. Level_complete l \<in> set said \<longrightarrow> l = current_level s"
    "Restart_announcement \<in> set said \<longleftrightarrow> \<not> current_level s < 5"
    "\<not> pose_correct s \<longrightarrow> Pose_feedback True (current_level s) \<in> set said"
    unfolding eq hold_start_def by blast
  with fs eq(6) lv show ?thesis
    by (auto simp: frame_step_def)
qed

lemma frame_step_hold:
  assumes fs: "frame_scores s f = Some (s1, sm)" and "ACCURACY_THRESHOLD \<le> sm"
    and "timing_settings (current_level s) = Some T" and "\<not> level_complete s"
    and "\<not> T \<le> clock_now f - hold_start s f"
  shows "\<exists>s' said. frame_step s f = Some (s', said)
      \<and> current_level s' = current_level s
      \<and> pose_correct s' \<and> \<not> level_complete s'
      \<and> pose_hold_time s' = hold_start s f
      \<and> dom (accuracy_history s') = dom (accuracy_history s)
      \<and> (\<forall>l. Level_complete l \<notin> set said)
      \<and> Restart_announcement \<notin> set said
      \<and> (\<not> pose_correct s \<longrightarrow> Pose_feedback True (current_level s) \<in> set said)"
proof -
  note eq = frame_scores_fields[OF fs]
  from progression_hold[of sm s1 T "clock_now f" "clock_hold f"] assms(2-5)
  obtain s' said where
    "progression s1 sm (clock_hold f) (clock_now f) = Some (s', said)"
    "current_level s' = current_level s"
    "pose_correct s'" "\<not> level_complete s'"
    "pose_hold_time s' = hold_start s f"
    "accuracy_history s' = accuracy_history s1"
    "\<forall>l. Level_complete l \<notin> set said"
    "Restart_announcement \<notin> set said"
    "\<not> pose_correct s \<longrightarrow> Pose_feedback True (current_level s) \<in> set said"
    unfolding eq hold_start_def by blast
  with fs eq(6) show ?thesis
    by (auto simp: frame_step_def)
qed

lemma frame_step_incorrect:
  assumes fs: "frame_scores s f = Some (s1, sm)" and "\<not> ACCURACY_THRESHOLD \<le> sm"
    and "timing_settings (current_level s) = Some T"
  shows "\<exists>s' said. frame_step s f = Some (s', said)
      \<and> current_level s' = current_level s
      \<and> \<not> pose_correct s' \<and> \<not> level_complete s'
      \<and> dom (accuracy_history s') = dom (accuracy_history s)
      \<and> (\<forall>l. Level_complete l \<notin> set said)"
proof -
  note eq = frame_scores_fields[OF fs]
  from progression_incorrect[of sm s1 T "clock_hold f" "clock_now f"] assms(2-3)
  obtain s' said where
    "progression s1 sm (clock_hold f) (clock_now f) = Some (s', said)"
    "current_level s' = current_level s"
    "\<not> pose_correct s'" "\<not> level_complete s'"
    "accuracy_history s' = accuracy_history s1"
    "\<forall>l. Level_complete l \<notin> set said"
    unfolding eq by blast
  with fs eq(6) show ?thesis
    by (auto simp: frame_step_def)
qed

lemma count_list_absent: "a \<notin> set xs \<Longrightarrow> count_list xs a = 0"
  by (induction xs) auto

lemma hold_run:
  assumes T: "timing_settings L = Some T"
  shows "holds_until s h0 T fs \<Longrightarrow> current_level s = L \<Longrightarrow> \<not> level_complete s
     \<Longrightarrow> hold_start s (hd fs) = h0
     \<Longrightarrow> \<exists>s' said. run s fs = Some (s', said)
          \<and> count_list said (Level_complete L) = 1
          \<and> (\<forall>l. Level_complete l \<in> set said \<longrightarrow> l = L)
          \<and> (Restart_announcement \<in> set said \<longleftrightarrow> L = 5)
          \<and> current_level s' = (if L < 5 then L + 1 else 1)
          \<and> \<not> pose_correct s' \<and> \<not> level_complete s'"
proof (induction fs arbitrary: s)
  case Nil
  then show ?case by simp
next
  case (Cons f fs)
  from Cons.prems(1) obtain s1 sm where
    sc: "frame_scores s f = Some (s1, sm)" and ok: "ACCURACY_THRESHOLD \<le> sm"
    and nk: "key f = 255"
    by (auto split: option.splits)
  have Ts: "timing_settings (current_level s) = Some T"
    using T Cons.prems(2) by simp
  have h0: "hold_start s f = h0" using Cons.prems(4) by simp
  show ?case
  proof (cases "fs = []")
    case True
    with Cons.prems(1) sc have "T \<le> clock_now f - hold_start s f"
      by (simp add: h0)
    from frame_step_fire[OF sc ok Ts Cons.prems(3) this]
    show ?thesis
      using True nk Cons.prems(2) by (auto simp: handle_key_no_key)
  next
    case False
    with Cons.prems(1) sc have lt: "\<not> T \<le> clock_now f - hold_start s f"
      by (simp add: h0)
    from frame_step_hold[OF sc ok Ts Cons.prems(3) lt]
    obtain s' said1 where st: "frame_step s f = Some (s', said1)"
      and s': "current_level s' = current_level s" "pose_correct s'" "\<not> level_complete s'"
        "pose_hold_time s' = hold_start s f"
      and no: "\<forall>l. Level_complete l \<notin> set said1" "Restart_announcement \<notin> set said1"
      by blast
    from Cons.prems(1) sc False st have rest: "holds_until s' h0 T fs"
      by simp
    have "hold_start s' (hd fs) = h0"
      using s'(2,4) h0 by (simp add: hold_start_def)
    from Cons.IH[OF rest _ s'(3) this] s'(1) Cons.prems(2)
    obtain s'' said3 where r: "run s' fs = Some (s'', said3)"
      and c: "count_list said3 (Level_complete L) = 1"
        "\<forall>l. Level_complete l \<in> set said3 \<longrightarrow> l = L"
        "current_level s'' = (if L < 5 then L + 1 else 1)"
        "\<not> pose_correct s''" "\<not> level_complete s''"
        "Restart_announcement \<in> set said3 \<longleftrightarrow> L = 5"
      by auto
    have "run s (f # fs) = Some (s'', said1 @ said3)"
      using run_no_key[OF nk, of s fs] st r by simp
    moreover have "count_list (said1 @ said3) (Level_complete L) = 1"
      using no c(1) by (simp add: count_list_absent)
    moreover have "\<forall>l. Level_complete l \<in> set (said1 @ said3) \<longrightarrow> l = L"
      using no c(2) by auto
    moreover have "Restart_announcement \<in> set (said1 @ said3) \<longleftrightarrow> L = 5"
      using no(2) c(6) by auto
    ultimately show ?thesis using c(3-5) by blast
  qed
qed

text \<open>
  C4: take a session whose completion flag is clear and a run of frames, with no key
  down, each judged correct (smoothed accuracy at least 55), in which the time since
  the start of the hold reaches the hold time of the level (2, 3, 2.5, 2, 3 seconds for
  levels 1-5) at the last frame and not before. Then the loop returns, level
  completion is announced exactly once in that run, and for the level held; the level
  becomes the next one, or 1 after level 5, where and only where the restart is
  announced; the pose-correct and level-complete flags are clear at the end, so the
  next hold is measured from a new start.
\<close>

theorem level_completion_fires_once:
  assumes "timing_settings (current_level s) = Some T" and "\<not> level_complete s"
    and "holds_until s (hold_start s (hd fs)) T fs"
  shows "\<exists>s' said. run s fs = Some (s', said)
      \<and> count_list said (Level_complete (current_level s)) = 1
      \<and> (\<forall>l. Level_complete l \<in> set said \<longrightarrow> l = current_level s)
      \<and> (Restart_announcement \<in> set said \<longleftrightarrow> current_level s = 5)
      \<and> current_level s' = (if current_level s < 5 then current_level s + 1 else 1)
      \<and> \<not> pose_correct s' \<and> \<not> level_complete s'
      \<and> (\<forall>f. hold_start s' f = clock_hold f)
      \<and> map timing_settings [1, 2, 3, 4, 5] = [Some 2, Some 3, Some (5 / 2), Some 2, Some 3]"
proof -
  from hold_run[OF assms(1) assms(3) refl assms(2) refl]
  obtain s' said where r: "run s fs = Some (s', said)"
      "count_list said (Level_complete (current_level s)) = 1"
      "\<forall>l. Level_complete l \<in> set said \<longrightarrow> l = current_level s"
      "Restart_announcement \<in> set said \<longleftrightarrow> current_level s = 5"
      "current_level s' = (if current_level s < 5 then current_level s + 1 else 1)"
      "\<not> pose_correct s'" "\<not> level_complete s'"
    by blast
  have "\<forall>f. hold_start s' f = clock_hold f"
    using r(6) by (simp add: hold_start_def)
  moreover have "map timing_settings [1, 2, 3, 4, 5] = [Some 2, Some 3, Some (5 / 2), Some 2, Some 3]"
    by (simp add: timing_settings_values)
  ultimately show ?thesis using r
    by - (intro exI[of _ s'] exI[of _ said] conjI; assumption)
qed

text \<open>
  C5: a frame judged incorrect (smoothed accuracy below 55) leaves the session with
  the pose-correct and level-complete flags clear, whatever they were, on the same
  level. The next frame judged correct then records its own clock reading as the
  start of the hold and announces the pose anew, and completes the level only if the
  hold time elapses between that reading and its second reading: nothing of the
  earlier hold is carried over.
\<close>

theorem incorrect_frame_resets_hold:
  assumes "frame_scores s f = Some (s1, smoothed)" and "smoothed < ACCURACY_THRESHOLD"
    and "timing_settings (current_level s) = Some T"
  shows "\<exists>s' said. frame_step s f = Some (s', said)
      \<and> \<not> pose_correct s' \<and> \<not> level_complete s' \<and> current_level s' = current_level s
      \<and> (\<forall>f2 s2 smoothed2.
            frame_scores s' f2 = Some (s2, smoothed2) \<and> ACCURACY_THRESHOLD \<le> smoothed2 \<longrightarrow>
            (\<exists>s'' said2. frame_step s' f2 = Some (s'', said2)
               \<and> pose_hold_time s'' = clock_hold f2
               \<and> Pose_feedback True (current_level s) \<in> set said2
               \<and> ((\<exists>l. Level_complete l \<in> set said2) \<longleftrightarrow> T \<le> clock_now f2 - clock_hold f2)))"
proof -
  from frame_step_incorrect[OF assms(1) _ assms(3)] assms(2)
  obtain s' said where st: "frame_step s f = Some (s', said)"
    and s': "current_level s' = current_level s" "\<not> pose_correct s'" "\<not> level_complete s'"
    by auto
  have T': "timing_settings (current_level s') = Some T"
    using assms(3) s'(1) by simp
  have "\<exists>s'' said2. frame_step s' f2 = Some (s'', said2)
               \<and> pose_hold_time s'' = clock_hold f2
               \<and> Pose_feedback True (current_level s) \<in> set said2
               \<and> ((\<exists>l. Level_complete l \<in> set said2) \<longleftrightarrow> T \<le> clock_now f2 - clock_hold f2)"
    if sc: "frame_scores s' f2 = Some (s2, smoothed2)" and ok: "ACCURACY_THRESHOLD \<le> smoothed2"
    for f2 s2 smoothed2
  proof (cases "T \<le> clock_now f2 - hold_start s' f2")
    case True
    from frame_step_fire[OF sc ok T' s'(3) True]
    obtain s'' said2 where "frame_step s' f2 = Some (s'', said2)"
      "pose_hold_time s'' = hold_start s' f2"
      "count_list said2 (Level_complete (current_level s')) = 1"
      "\<not> pose_correct s' \<longrightarrow> Pose_feedback True (current_level s') \<in> set said2"
      by blast
    moreover from this(3) have "Level_complete (current_level s') \<in> set said2"
      by (metis count_list_absent zero_neq_one)
    ultimately show ?thesis
      using True s'(1,2) by (auto simp: hold_start_def)
  next
    case False
    from frame_step_hold[OF sc ok T' s'(3) False]
    show ?thesis
      using False s'(1,2) by (auto simp: hold_start_def)
  qed
  with st s' show ?thesis by blast
qed

lemma straight_arms_accuracy:
  "check_pose_accuracy 640 480 1 (Some \<lparr>pose_landmarks = Some straight_arms\<rparr>)
     = Some (True, 1490 / 27)"
  by (simp add: check_pose_accuracy_def mountain_accuracy_def straight_arms_torso
        straight_arms_mountain_scores Let_def ACCURACY_THRESHOLD_def)

lemma straight_arms_frame_scores:
  assumes "current_level s = 1" and "accuracy_history s 1 = Some h"
  shows "frame_scores s (straight_arms_frame t) =
           Some (s\<lparr>accuracy_history := (accuracy_history s)
                     (1 \<mapsto> deque_append SMOOTHING_WINDOW h (298 / 5))\<rparr>,
                 sum_list (deque_append SMOOTHING_WINDOW h (298 / 5))
                 / real (length (deque_append SMOOTHING_WINDOW h (298 / 5))))"
  using assms smooth_total[of s h "1490 / 27"]
  by (simp add: frame_scores_def straight_arms_frame_def straight_arms_accuracy Let_def
        SENSITIVITY_def)

theorem level_completion_fires_once_witness:
  "timing_settings (current_level initial_session) = Some 2
   \<and> \<not> level_complete initial_session
   \<and> holds_until initial_session
        (hold_start initial_session (hd [straight_arms_frame 10, straight_arms_frame 12])) 2
        [straight_arms_frame 10, straight_arms_frame 12]
   \<and> (\<exists>s' said. run initial_session [straight_arms_frame 10, straight_arms_frame 12]
                   = Some (s', said)
         \<and> count_list said (Level_complete 1) = 1
         \<and> current_level s' = 2 \<and> \<not> pose_correct s' \<and> \<not> level_complete s')"
proof -
  have h1: "timing_settings (current_level initial_session) = Some 2"
    by (simp add: initial_session_def timing_settings_def)
  have h2: "\<not> level_complete initial_session"
    by (simp add: initial_session_def)
  have h3: "holds_until initial_session
        (hold_start initial_session (hd [straight_arms_frame 10, straight_arms_frame 12])) 2
        [straight_arms_frame 10, straight_arms_frame 12]"
    by (simp add: frame_step_def straight_arms_frame_scores initial_session_def
          deque_append_def SMOOTHING_WINDOW_def Let_def hold_start_def
          ACCURACY_THRESHOLD_def progression_def timing_settings_def)
       (simp add: straight_arms_frame_def)
  have lv: "current_level initial_session = 1"
    by (simp add: initial_session_def)
  from level_completion_fires_once[OF h1 h2 h3]
  obtain s' said where
    "run initial_session [straight_arms_frame 10, straight_arms_frame 12] = Some (s', said)"
    "count_list said (Level_complete 1) = 1" "current_level s' = 2"
    "\<not> pose_correct s'" "\<not> level_complete s'"
    unfolding lv by auto
  with h1 h2 h3 show ?thesis
    by - (intro conjI exI[of _ s'] exI[of _ said]; assumption)
qed

theorem incorrect_frame_resets_hold_witness:
  "frame_scores (initial_session\<lparr>pose_correct := True, pose_hold_time := 5\<rparr>) (no_pose_frame 10)
     = Some (initial_session\<lparr>pose_correct := True, pose_hold_time := 5,
               accuracy_history := (accuracy_history initial_session)(1 \<mapsto> [0])\<rparr>, 0)
   \<and> (0::real) < ACCURACY_THRESHOLD
   \<and> timing_settings (current_level (initial_session\<lparr>pose_correct := True, pose_hold_time := 5\<rparr>))
       = Some 2
   \<and> (\<exists>s' said. frame_step (initial_session\<lparr>pose_correct := True, pose_hold_time := 5\<rparr>)
                     (no_pose_frame 10) = Some (s', said)
         \<and> \<not> pose_correct s' \<and> \<not> level_complete s' \<and> current_level s' = 1)"
proof -
  let ?s = "initial_session\<lparr>pose_correct := True, pose_hold_time := 5\<rparr>"
  have h1: "frame_scores ?s (no_pose_frame 10)
     = Some (initial_session\<lparr>pose_correct := True, pose_hold_time := 5,
               accuracy_history := (accuracy_history initial_session)(1 \<mapsto> [0])\<rparr>, 0)"
    by (simp add: frame_scores_def no_pose_frame_def check_pose_accuracy_def smooth_def
          initial_session_def deque_append_def SMOOTHING_WINDOW_def py_div_def Let_def)
  have h2: "(0::real) < ACCURACY_THRESHOLD"
    by (simp add: ACCURACY_THRESHOLD_def)
  have h3: "timing_settings (current_level ?s) = Some 2"
    by (simp add: initial_session_def timing_settings_def)
  have lv: "current_level ?s = 1"
    by (simp add: initial_session_def)
  from incorrect_frame_resets_hold[OF h1 h2 h3]
  obtain s' said where "frame_step ?s (no_pose_frame 10) = Some (s', said)"
    "\<not> pose_correct s'" "\<not> level_complete s'" "current_level s' = 1"
    unfolding lv by blast
  with h1 h2 h3 show ?thesis
    by - (intro conjI exI[of _ s'] exI[of _ said]; assumption)
qed

lemma handle_key_session_ok:
  "session_ok s \<Longrightarrow> handle_key s k = (c, s', said) \<Longrightarrow> session_ok s'"
  by (auto simp: handle_key_def session_ok_def Let_def split: if_splits)

lemma frame_step_total:
  assumes ok: "session_ok s" and size: "0 < max (frame_height f) (frame_width f)"
  shows "\<exists>s' said. frame_step s f = Some (s', said) \<and> session_ok s'"
proof -
  obtain s1 sm where sc: "frame_scores s f = Some (s1, sm)"
    using frame_scores_total[OF ok size] by blast
  note eq = frame_scores_fields[OF sc]
  have lv: "1 \<le> current_level s" "current_level s \<le> 5"
    using ok by (simp_all add: session_ok_def)
  obtain T where T: "timing_settings (current_level s1) = Some T"
    using timing_settings_defined[OF lv] eq(1) by auto
  have "\<exists>s' said. progression s1 sm (clock_hold f) (clock_now f) = Some (s', said)
          \<and> 1 \<le> current_level s' \<and> current_level s' \<le> 5
          \<and> accuracy_history s' = accuracy_history s1"
    using T lv eq(1)
    by (cases "pose_correct s1") (auto simp: progression_def Let_def)
  then obtain s' said where
    "progression s1 sm (clock_hold f) (clock_now f) = Some (s', said)"
    "1 \<le> current_level s'" "current_level s' \<le> 5" "accuracy_history s' = accuracy_history s1"
    by blast
  with sc eq(6) ok show ?thesis
    by (auto simp: frame_step_def session_ok_dom)
qed

lemma run_total:
  assumes "list_all (\<lambda>f. 0 < max (frame_height f) (frame_width f)) fs"
  shows "session_ok s \<Longrightarrow> \<exists>s' said. run s fs = Some (s', said) \<and> session_ok s'"
  using assms
proof (induction fs arbitrary: s)
  case Nil
  then show ?case by simp
next
  case (Cons f fs)
  from Cons.prems obtain s1 said1 where
    st: "frame_step s f = Some (s1, said1)" "session_ok s1"
    using frame_step_total[of s f] by auto
  obtain c s2 said2 where hk: "handle_key s1 (key f) = (c, s2, said2)"
    by (cases "handle_key s1 (key f)") auto
  have ok2: "session_ok s2"
    using handle_key_session_ok[OF st(2) hk] .
  show ?case
  proof (cases c)
    case Break
    with st hk ok2 show ?thesis by simp
  next
    case Continue
    from Cons.IH[OF ok2] Cons.prems(2)
    obtain s3 said3 where "run s2 fs = Some (s3, said3)" "session_ok s3"
      by auto
    with st hk Continue show ?thesis by simp
  qed
qed

end
